theory Spec2Isabelle
  imports Main "HOL-Library.Monad_Syntax" "HOL-Library.Multiset" "HOL-Library.Product_Lexorder"
begin

section \<open>Byte literals of pkg/engine/resolve/resolve.go\<close>

text \<open>
  A Go byte slice that is compared with \<^verbatim>\<open>nil\<close> somewhere in the source is a
  \<open>string option\<close> (\<open>None\<close> is \<^verbatim>\<open>nil\<close>); the content of a \<^verbatim>\<open>bytes.Buffer\<close> is a
  \<open>string\<close>. Writing a nil slice to a buffer writes nothing.
\<close>

type_synonym slice = "string option"

definition bytesOf :: "slice \<Rightarrow> string" where
  "bytesOf s = (case s of None \<Rightarrow> [] | Some bs \<Rightarrow> bs)"

definition lBrace :: string where "lBrace = ''{''"
definition rBrace :: string where "rBrace = ''}''"
definition lBrack :: string where "lBrack = ''[''"
definition rBrack :: string where "rBrack = '']''"
definition comma :: string where "comma = '',''"
definition colon :: string where "colon = '':''"
definition quote :: string where "quote = [CHR 0x22]"
definition null :: string where "null = ''null''"
definition literalData :: string where "literalData = ''data''"
definition literalErrors :: string where "literalErrors = ''Errors''"
definition literalMessage :: string where "literalMessage = ''message''"
definition literalLocations :: string where "literalLocations = ''locations''"
definition literalPath :: string where "literalPath = ''path''"

section \<open>BufPair\<close>

record BufPair =
  Data :: string
  Errors :: string

definition NewBufPair :: BufPair where
  "NewBufPair = \<lparr>Data = [], Errors = []\<rparr>"

definition HasData :: "BufPair \<Rightarrow> bool" where
  "HasData b = (length (Data b) \<noteq> 0)"

definition HasErrors :: "BufPair \<Rightarrow> bool" where
  "HasErrors b = (length (Errors b) \<noteq> 0)"

definition Reset :: "BufPair \<Rightarrow> BufPair" where
  "Reset b = b\<lparr>Data := [], Errors := []\<rparr>"

text \<open>
  \<^verbatim>\<open>writeErrors(err, data)\<close> appends to the errors buffer unless an earlier write
  failed. \<^verbatim>\<open>bytes.Buffer.Write\<close> always returns a nil error, so the error threaded
  through \<^verbatim>\<open>WriteErr\<close> stays nil and only the buffer is returned.
\<close>

definition writeErrors :: "BufPair \<Rightarrow> string \<Rightarrow> BufPair" where
  "writeErrors b bs = b\<lparr>Errors := Errors b @ bs\<rparr>"

definition WriteErr :: "BufPair \<Rightarrow> slice \<Rightarrow> slice \<Rightarrow> slice \<Rightarrow> BufPair" where
  "WriteErr b message locations path =
    (let b = (if HasErrors b then writeErrors b comma else b);
         b = writeErrors b lBrace;
         b = writeErrors b quote;
         b = writeErrors b literalMessage;
         b = writeErrors b quote;
         b = writeErrors b colon;
         b = writeErrors b quote;
         b = writeErrors b (bytesOf message);
         b = writeErrors b quote;
         b = (if locations \<noteq> None then
                (let b = writeErrors b comma;
                     b = writeErrors b quote;
                     b = writeErrors b literalLocations;
                     b = writeErrors b quote;
                     b = writeErrors b colon
                 in writeErrors b (bytesOf locations))
              else b);
         b = (if path \<noteq> None then
                (let b = writeErrors b comma;
                     b = writeErrors b quote;
                     b = writeErrors b literalPath;
                     b = writeErrors b quote;
                     b = writeErrors b colon
                 in writeErrors b (bytesOf path))
              else b)
     in writeErrors b rBrace)"

text \<open>
  The merge functions return the byte counts and both buffers: \<^verbatim>\<open>WriteTo\<close> drains the
  source buffer into the destination.
\<close>

definition MergeBufPairData :: "BufPair \<Rightarrow> BufPair \<Rightarrow> bool \<Rightarrow> nat \<times> BufPair \<times> BufPair" where
  "MergeBufPairData from to prefixDataWithComma =
    (if \<not> HasData from then (0, from, to)
     else
       (let (dataWritten, to) =
              (if prefixDataWithComma then (length comma, to\<lparr>Data := Data to @ comma\<rparr>)
               else (0, to));
            written = length (Data from);
            to = to\<lparr>Data := Data to @ Data from\<rparr>;
            from = from\<lparr>Data := []\<rparr>
        in (dataWritten + written, from, to)))"

definition MergeBufPairErrors :: "BufPair \<Rightarrow> BufPair \<Rightarrow> nat \<times> BufPair \<times> BufPair" where
  "MergeBufPairErrors from to =
    (if \<not> HasErrors from then (0, from, to)
     else
       (let (errorsWritten, to) =
              (if HasErrors to then (length comma, to\<lparr>Errors := Errors to @ comma\<rparr>)
               else (0, to));
            written = length (Errors from);
            to = to\<lparr>Errors := Errors to @ Errors from\<rparr>;
            from = from\<lparr>Errors := []\<rparr>
        in (errorsWritten + written, from, to)))"

definition MergeBufPairs :: "BufPair \<Rightarrow> BufPair \<Rightarrow> bool \<Rightarrow> nat \<times> nat \<times> BufPair \<times> BufPair" where
  "MergeBufPairs from to prefixDataWithComma =
    (let (dataWritten, from, to) = MergeBufPairData from to prefixDataWithComma;
         (errorsWritten, from, to) = MergeBufPairErrors from to
     in (dataWritten, errorsWritten, from, to))"




section \<open>The plan tree\<close>

text \<open>
  The two sentinel errors of the resolver, and every other error (a failed data-source load,
  a template that cannot be rendered, a failed write to the caller's writer) with its
  message. The sentinels are unexported package variables compared by identity, so no
  collaborator can return them.
\<close>

datatype error =
    errNonNullableFieldValueIsNull
  | errTypeNameSkipped
  | OtherError string

text \<open>The value types reported by \<^verbatim>\<open>jsonparser.Get\<close>.\<close>

datatype ValueType =
    jsonparser_NotExist
  | jsonparser_String
  | jsonparser_Number
  | jsonparser_Object
  | jsonparser_Array
  | jsonparser_Boolean
  | jsonparser_Null
  | jsonparser_Unknown

datatype SegmentType = StaticSegmentType | VariableSegmentType | OtherSegmentType int

datatype VariableSource = VariableSourceObject | VariableSourceContext | OtherVariableSource int

text \<open>
  \<open>SegmentData\<close> is the field \<^verbatim>\<open>Data\<close> of \<^verbatim>\<open>TemplateSegment\<close> (renamed: \<open>Data\<close> is
  the field of \<open>BufPair\<close>).
\<close>

record TemplateSegment =
  SegmentType :: SegmentType
  SegmentData :: string
  VariableSource :: VariableSource
  VariableSourcePath :: "string list"

text \<open>
  A \<^verbatim>\<open>DataSource\<close> is an interface value: \<open>Load\<close> receives the prepared input and
  the target \<open>BufPair\<close> and returns its error (the message, if any) with the buffer as it
  left it.
\<close>

record DataSource =
  Load :: "string \<Rightarrow> BufPair \<Rightarrow> string option \<times> BufPair"
  UniqueIdentifier :: string

record SingleFetch =
  BufferId :: int
  DataSource :: DataSource
  DisallowSingleFlight :: bool
  InputTemplate :: "TemplateSegment list"

datatype Fetch = FetchSingle SingleFetch | FetchParallel "SingleFetch list"

datatype Node =
    Object bool "string list" "FieldSet list" "Fetch option"
  | EmptyObject
  | Array "string list" bool bool Node
  | EmptyArray
  | Null
  | String "string list" bool
  | Boolean "string list" bool
  | Integer "string list" bool
  | Float "string list" bool
and FieldSet = FieldSet slice int bool "Field list"
and Field = Field string Node

text \<open>
  The arguments of the constructors follow the declaration order of the Go structs:
  \<open>Object Nullable Path FieldSets Fetch\<close>, \<open>Array Path Nullable ResolveAsynchronous Item\<close>,
  \<open>String Path Nullable\<close> (and likewise the other scalars),
  \<open>FieldSet OnTypeName BufferID HasBuffer Fields\<close>, \<open>Field Name Value\<close>.
\<close>

section \<open>The collaborators of the resolver\<close>

text \<open>
  What the resolver takes from outside the repository is a parameter of the model:
  \<^item> \<open>Get data path\<close> is \<^verbatim>\<open>jsonparser.Get(data, path...)\<close>: the value, its type and the
    error (its message, if any);
  \<^item> \<open>ArrayEach data path\<close> is the list of values that \<^verbatim>\<open>jsonparser.ArrayEach\<close> passes
    to its callback;
  \<^item> \<open>Variables\<close> is \<^verbatim>\<open>ctx.Variables\<close>;
  \<^item> \<open>EnableSingleFlightLoader\<close> is the field of the \<^verbatim>\<open>Resolver\<close>;
  \<^item> \<open>RangeOrder\<close> is the order in which \<^verbatim>\<open>range\<close> visits the keys of the result
    set in this run. Go leaves the order unspecified, so two runs of the resolver are two
    environments that may differ in it;
  \<^item> \<open>Sched\<close> chooses, among the errors that the goroutines of a parallel array try to
    send, the one that reaches the one-slot error channel first in this run.
\<close>

record Env =
  Get :: "slice \<Rightarrow> string list \<Rightarrow> slice \<times> ValueType \<times> string option"
  ArrayEach :: "slice \<Rightarrow> string list \<Rightarrow> slice list"
  Variables :: slice
  EnableSingleFlightLoader :: bool
  RangeOrder :: "int list \<Rightarrow> int list"
  Sched :: "error list \<Rightarrow> nat"

section \<open>Scalars\<close>

text \<open>
  Every resolver function returns its error together with the \<open>BufPair\<close> as the call left
  it: the buffers are mutated in place also on the paths that return an error. Writes to a
  \<^verbatim>\<open>bytes.Buffer\<close> never fail, so \<^verbatim>\<open>writeSafe\<close> on a buffer is an append.
\<close>

definition writeData :: "BufPair \<Rightarrow> string \<Rightarrow> BufPair" where
  "writeData b bs = b\<lparr>Data := Data b @ bs\<rparr>"

definition resolveNull :: "BufPair \<Rightarrow> error option \<times> BufPair" where
  "resolveNull b = (None, writeData b null)"

definition resolveEmptyArray :: "BufPair \<Rightarrow> error option \<times> BufPair" where
  "resolveEmptyArray b = (None, writeData (writeData b lBrack) rBrack)"

definition resolveEmptyObject :: "BufPair \<Rightarrow> error option \<times> BufPair" where
  "resolveEmptyObject b = (None, writeData (writeData b lBrace) rBrace)"

definition resolveInteger ::
  "Env \<Rightarrow> string list \<Rightarrow> bool \<Rightarrow> slice \<Rightarrow> BufPair \<Rightarrow> error option \<times> BufPair" where
  "resolveInteger env path nullable data integerBuf =
    (case Get env data path of (value, dataType, err) \<Rightarrow>
       if err \<noteq> None \<or> dataType \<noteq> jsonparser_Number then
         (if \<not> nullable then (Some errNonNullableFieldValueIsNull, integerBuf)
          else resolveNull integerBuf)
       else (None, writeData integerBuf (bytesOf value)))"

definition resolveFloat ::
  "Env \<Rightarrow> string list \<Rightarrow> bool \<Rightarrow> slice \<Rightarrow> BufPair \<Rightarrow> error option \<times> BufPair" where
  "resolveFloat env path nullable data integerBuf =
    (case Get env data path of (value, dataType, err) \<Rightarrow>
       if err \<noteq> None \<or> dataType \<noteq> jsonparser_Number then
         (if \<not> nullable then (Some errNonNullableFieldValueIsNull, integerBuf)
          else resolveNull integerBuf)
       else (None, writeData integerBuf (bytesOf value)))"

definition resolveBoolean ::
  "Env \<Rightarrow> string list \<Rightarrow> bool \<Rightarrow> slice \<Rightarrow> BufPair \<Rightarrow> error option \<times> BufPair" where
  "resolveBoolean env path nullable data booleanBuf =
    (case Get env data path of (value, valueType, err) \<Rightarrow>
       if err \<noteq> None \<or> valueType \<noteq> jsonparser_Boolean then
         (if \<not> nullable then (Some errNonNullableFieldValueIsNull, booleanBuf)
          else resolveNull booleanBuf)
       else (None, writeData booleanBuf (bytesOf value)))"

definition resolveString ::
  "Env \<Rightarrow> string list \<Rightarrow> bool \<Rightarrow> slice \<Rightarrow> BufPair \<Rightarrow> error option \<times> BufPair" where
  "resolveString env path nullable data stringBuf =
    (case Get env data path of (value, valueType, err) \<Rightarrow>
       if err \<noteq> None \<or> valueType \<noteq> jsonparser_String then
         (if \<not> nullable then (Some errNonNullableFieldValueIsNull, stringBuf)
          else resolveNull stringBuf)
       else if data = None \<and> \<not> nullable then (Some errNonNullableFieldValueIsNull, stringBuf)
       else (None, writeData (writeData (writeData stringBuf quote) (bytesOf value)) quote))"

section \<open>The fetch layer\<close>

text \<open>
  The verb \<^verbatim>\<open>%d\<close> of \<^verbatim>\<open>fmt.Errorf\<close>: an integer in decimal.
\<close>

fun formatNat :: "nat \<Rightarrow> string" where
  "formatNat n =
    (if n < 10 then [char_of (48 + n)]
     else formatNat (n div 10) @ [char_of (48 + n mod 10)])"

definition formatInt :: "int \<Rightarrow> string" where
  "formatInt k = (if k < 0 then CHR ''-'' # formatNat (nat (- k)) else formatNat (nat k))"

text \<open>
  \<^verbatim>\<open>InputTemplate.Render\<close>: the loop over the segments, with the prepared input so far.
  A segment whose type is neither static nor variable writes nothing.
\<close>

fun Render :: "Env \<Rightarrow> TemplateSegment list \<Rightarrow> slice \<Rightarrow> string \<Rightarrow> error option \<times> string" where
  "Render env [] data preparedInput = (None, preparedInput)"
| "Render env (seg # segs) data preparedInput =
    (case SegmentType seg of
       StaticSegmentType \<Rightarrow> Render env segs data (preparedInput @ SegmentData seg)
     | VariableSegmentType \<Rightarrow>
         (case (case VariableSource seg of
                  VariableSourceObject \<Rightarrow> Inr data
                | VariableSourceContext \<Rightarrow> Inr (Variables env)
                | OtherVariableSource k \<Rightarrow>
                    Inl (OtherError
                      (''InputTemplate.Render: cannot resolve variable of kind: ''
                       @ formatInt k)))
          of
            Inl e \<Rightarrow> (Some e, preparedInput)
          | Inr variableSource \<Rightarrow>
              (case Get env variableSource (VariableSourcePath seg) of (value, dataType, err) \<Rightarrow>
                 (case err of
                    Some msg \<Rightarrow> (Some (OtherError msg), preparedInput)
                  | None \<Rightarrow> Render env segs data (preparedInput @ bytesOf value))))
     | OtherSegmentType k \<Rightarrow> Render env segs data preparedInput)"

text \<open>
  The result set is the map \<^verbatim>\<open>buffers\<close> from buffer ids to \<open>BufPair\<close>s, kept as an
  association list with one entry per key.
\<close>

type_synonym resultSet = "(int \<times> BufPair) list"

fun setBuffer :: "resultSet \<Rightarrow> int \<Rightarrow> BufPair \<Rightarrow> resultSet" where
  "setBuffer [] k b = [(k, b)]"
| "setBuffer ((k', b') # rest) k b =
    (if k' = k then (k, b) # rest else (k', b') # setBuffer rest k b)"

definition prepareSingleFetch ::
  "Env \<Rightarrow> SingleFetch \<Rightarrow> slice \<Rightarrow> resultSet \<Rightarrow> error option \<times> string \<times> resultSet" where
  "prepareSingleFetch env fetch data resSet =
    (case Render env (InputTemplate fetch) data [] of (err, preparedInput) \<Rightarrow>
       (err, preparedInput, setBuffer resSet (BufferId fetch) NewBufPair))"

text \<open>
  The record that the calls of \<^verbatim>\<open>resolveSingleFetch\<close> with one key share: the error of
  the load and the shared \<open>BufPair\<close> (the fields \<^verbatim>\<open>err\<close> and \<^verbatim>\<open>bufPair\<close> of
  \<^verbatim>\<open>inflightFetch\<close>; its two wait groups only order the calls in time).
\<close>

record inflightFetch =
  inflightErr :: "error option"
  inflightBufPair :: BufPair

text \<open>
  The path of the call that finds no record for its key (the leader): it loads into the
  pooled, empty shared \<open>BufPair\<close>, stores the error of the load in the record and copies
  the shared bytes to its own \<open>buf\<close>. The assignments \<^verbatim>\<open>_, err = buf.Data.Write(...)\<close> and
  \<^verbatim>\<open>_, err = buf.Errors.Write(...)\<close> overwrite the error that the call returns. The
  function returns that error, \<open>buf\<close> and the record as the followers find it.
\<close>

definition resolveSingleFetchLeader ::
  "SingleFetch \<Rightarrow> string \<Rightarrow> BufPair \<Rightarrow> error option \<times> BufPair \<times> inflightFetch" where
  "resolveSingleFetchLeader fetch preparedInput buf =
    (case Load (DataSource fetch) preparedInput NewBufPair of (loadErr, shared) \<Rightarrow>
       (let err = map_option OtherError loadErr;
            inflight = \<lparr>inflightErr = err, inflightBufPair = shared\<rparr>;
            (err, buf) = (if HasData shared
                          then (None, buf\<lparr>Data := Data buf @ Data shared\<rparr>)
                          else (err, buf));
            (err, buf) = (if HasErrors shared
                          then (None, buf\<lparr>Errors := Errors buf @ Errors shared\<rparr>)
                          else (err, buf))
        in (err, buf, inflight)))"

text \<open>
  The path of a call that finds the record of its key (a follower), after the wait for
  the load: it copies the shared bytes to its own \<open>buf\<close> and returns the error stored in
  the record.
\<close>

definition resolveSingleFetchFollower ::
  "inflightFetch \<Rightarrow> BufPair \<Rightarrow> error option \<times> BufPair" where
  "resolveSingleFetchFollower inflight buf =
    (let buf = (if HasData (inflightBufPair inflight)
                then buf\<lparr>Data := Data buf @ Data (inflightBufPair inflight)\<rparr> else buf);
         buf = (if HasErrors (inflightBufPair inflight)
                then buf\<lparr>Errors := Errors buf @ Errors (inflightBufPair inflight)\<rparr> else buf)
     in (inflightErr inflight, buf))"

text \<open>
  \<^verbatim>\<open>resolveSingleFetch\<close> as one call runs it with no other call in flight: with single
  flight enabled the inflight table has no entry for the key, so the call takes the
  leader's path.
\<close>

definition resolveSingleFetch ::
  "Env \<Rightarrow> SingleFetch \<Rightarrow> string \<Rightarrow> BufPair \<Rightarrow> error option \<times> BufPair" where
  "resolveSingleFetch env fetch preparedInput buf =
    (if \<not> EnableSingleFlightLoader env \<or> DisallowSingleFlight fetch then
       (case Load (DataSource fetch) preparedInput buf of
          (err, buf) \<Rightarrow> (map_option OtherError err, buf))
     else
       (case resolveSingleFetchLeader fetch preparedInput buf of
          (err, buf, inflight) \<Rightarrow> (err, buf)))"

text \<open>
  The parallel fetch prepares every input first (returning at the first template that
  fails), then loads every fetch into the buffer stored under its id and drops the errors
  of the loads. The goroutines are run here in the order of the list; they write to
  distinct buffers when the buffer ids are distinct.
\<close>

fun prepareAll ::
  "Env \<Rightarrow> SingleFetch list \<Rightarrow> slice \<Rightarrow> resultSet \<Rightarrow> string list
     \<Rightarrow> error option \<times> string list \<times> resultSet" where
  "prepareAll env [] data resSet preparedInputs = (None, preparedInputs, resSet)"
| "prepareAll env (f # fs) data resSet preparedInputs =
    (case prepareSingleFetch env f data resSet of
       (Some e, preparedInput, resSet) \<Rightarrow> (Some e, preparedInputs, resSet)
     | (None, preparedInput, resSet) \<Rightarrow>
         prepareAll env fs data resSet (preparedInputs @ [preparedInput]))"

fun loadAll :: "Env \<Rightarrow> SingleFetch list \<Rightarrow> string list \<Rightarrow> resultSet \<Rightarrow> resultSet" where
  "loadAll env (f # fs) (preparedInput # ins) resSet =
    (case map_of resSet (BufferId f) of
       Some buf \<Rightarrow>
         loadAll env fs ins
           (setBuffer resSet (BufferId f) (snd (resolveSingleFetch env f preparedInput buf)))
     | None \<Rightarrow> loadAll env fs ins resSet)"
| "loadAll env fs ins resSet = resSet"

definition resolveFetch :: "Env \<Rightarrow> Fetch \<Rightarrow> slice \<Rightarrow> resultSet \<Rightarrow> error option \<times> resultSet" where
  "resolveFetch env fetch data resSet =
    (case fetch of
       FetchSingle f \<Rightarrow>
         (case prepareSingleFetch env f data resSet of
            (Some e, preparedInput, resSet) \<Rightarrow> (Some e, resSet)
          | (None, preparedInput, resSet) \<Rightarrow>
              (case map_of resSet (BufferId f) of
                 Some buf \<Rightarrow>
                   (case resolveSingleFetch env f preparedInput buf of
                      (err, buf) \<Rightarrow> (err, setBuffer resSet (BufferId f) buf))
               | None \<Rightarrow> (None, resSet)))
     | FetchParallel fs \<Rightarrow>
         (case prepareAll env fs data resSet [] of
            (Some e, preparedInputs, resSet) \<Rightarrow> (Some e, resSet)
          | (None, preparedInputs, resSet) \<Rightarrow> (None, loadAll env fs preparedInputs resSet)))"

text \<open>
  After a successful fetch the errors of every buffer of the result set are merged into
  the object's errors buffer, in the order in which \<^verbatim>\<open>range\<close> visits the keys.
\<close>

fun mergeSetErrors :: "int list \<Rightarrow> resultSet \<Rightarrow> BufPair \<Rightarrow> resultSet \<times> BufPair" where
  "mergeSetErrors [] resSet objectBuf = (resSet, objectBuf)"
| "mergeSetErrors (k # ks) resSet objectBuf =
    (case map_of resSet k of
       None \<Rightarrow> mergeSetErrors ks resSet objectBuf
     | Some b \<Rightarrow>
         (case MergeBufPairErrors b objectBuf of (n, b, objectBuf) \<Rightarrow>
            mergeSetErrors ks (setBuffer resSet k b) objectBuf))"

section \<open>Arrays\<close>

text \<open>
  The loops of the two array resolvers take the resolver of the item node as an argument
  (\<open>resolveItem\<close> is \<^verbatim>\<open>r.resolveNode(ctx, array.Item, _, _)\<close>).

  The serial loop carries the array's buffer, the one reused item buffer and
  \<^verbatim>\<open>hasPreviousItem\<close>; it returns \<open>Inl\<close> when \<^verbatim>\<open>resolveArraySynchronous\<close> returns
  from inside the loop, with what it returns, and \<open>Inr\<close> with the loop variables otherwise.
\<close>

fun resolveArraySynchronousLoop ::
  "(slice \<Rightarrow> BufPair \<Rightarrow> error option \<times> BufPair) \<Rightarrow> bool \<Rightarrow> slice list
     \<Rightarrow> BufPair \<times> BufPair \<times> bool
     \<Rightarrow> (error option \<times> BufPair) + (BufPair \<times> BufPair \<times> bool)" where
  "resolveArraySynchronousLoop resolveItem nullable [] state = Inr state"
| "resolveArraySynchronousLoop resolveItem nullable (item # arrayItems)
       (arrayBuf, itemBuf, hasPreviousItem) =
    (case resolveItem item itemBuf of
       (Some err, itemBuf) \<Rightarrow>
         if err = errNonNullableFieldValueIsNull \<and> nullable then
           Inl (resolveNull (arrayBuf\<lparr>Data := []\<rparr>))
         else if err = errTypeNameSkipped then
           resolveArraySynchronousLoop resolveItem nullable arrayItems
             (arrayBuf, itemBuf, hasPreviousItem)
         else Inl (Some err, arrayBuf)
     | (None, itemBuf) \<Rightarrow>
         (case MergeBufPairs itemBuf arrayBuf hasPreviousItem of
            (dataWritten, errorsWritten, itemBuf, arrayBuf) \<Rightarrow>
              resolveArraySynchronousLoop resolveItem nullable arrayItems
                (arrayBuf, itemBuf,
                 if \<not> hasPreviousItem \<and> dataWritten \<noteq> 0 then True else hasPreviousItem)))"

definition resolveArraySynchronous ::
  "(slice \<Rightarrow> BufPair \<Rightarrow> error option \<times> BufPair) \<Rightarrow> bool \<Rightarrow> slice list \<Rightarrow> BufPair
     \<Rightarrow> error option \<times> BufPair" where
  "resolveArraySynchronous resolveItem nullable arrayItems arrayBuf =
    (case resolveArraySynchronousLoop resolveItem nullable arrayItems
            (writeData arrayBuf lBrack, NewBufPair, False) of
       Inl result \<Rightarrow> result
     | Inr (arrayBuf, itemBuf, hasPreviousItem) \<Rightarrow> (None, writeData arrayBuf rBrack))"

text \<open>
  The parallel resolver gives every item a \<open>BufPair\<close> of its own. A goroutine whose item
  fails with an error other than \<^verbatim>\<open>errTypeNameSkipped\<close> tries to send it to the one-slot
  channel; after all goroutines are done the resolver receives the error that got the
  slot, if any. Otherwise the item buffers are merged in index order.
\<close>

fun mergeItemBufs :: "BufPair list \<Rightarrow> BufPair \<Rightarrow> bool \<Rightarrow> BufPair" where
  "mergeItemBufs [] arrayBuf hasPreviousItem = arrayBuf"
| "mergeItemBufs (itemBuf # bufSlice) arrayBuf hasPreviousItem =
    (case MergeBufPairs itemBuf arrayBuf hasPreviousItem of
       (dataWritten, errorsWritten, itemBuf, arrayBuf) \<Rightarrow>
         mergeItemBufs bufSlice arrayBuf
           (if \<not> hasPreviousItem \<and> dataWritten \<noteq> 0 then True else hasPreviousItem))"

definition sentErrors :: "(error option \<times> BufPair) list \<Rightarrow> error list" where
  "sentErrors results =
     List.map_filter
       (\<lambda>(e, itemBuf). case e of
            None \<Rightarrow> None
          | Some e \<Rightarrow> if e \<noteq> errTypeNameSkipped then Some e else None)
       results"

definition resolveArrayAsynchronous ::
  "Env \<Rightarrow> (slice \<Rightarrow> BufPair \<Rightarrow> error option \<times> BufPair) \<Rightarrow> bool \<Rightarrow> slice list \<Rightarrow> BufPair
     \<Rightarrow> error option \<times> BufPair" where
  "resolveArrayAsynchronous env resolveItem nullable arrayItems arrayBuf =
    (let arrayBuf = writeData arrayBuf lBrack;
         results = map (\<lambda>itemData. resolveItem itemData NewBufPair) arrayItems;
         sent = sentErrors results;
         err = (if sent = [] then None else Some (sent ! (Sched env sent mod length sent)))
     in case err of
          Some err \<Rightarrow>
            if err = errNonNullableFieldValueIsNull \<and> nullable then
              resolveNull (arrayBuf\<lparr>Data := []\<rparr>)
            else (Some err, arrayBuf)
        | None \<Rightarrow>
            (None, writeData (mergeItemBufs (map snd results) arrayBuf False) rBrack))"

definition resolveArray ::
  "Env \<Rightarrow> (slice \<Rightarrow> BufPair \<Rightarrow> error option \<times> BufPair) \<Rightarrow> string list \<Rightarrow> bool \<Rightarrow> bool
     \<Rightarrow> slice \<Rightarrow> BufPair \<Rightarrow> error option \<times> BufPair" where
  "resolveArray env resolveItem path nullable resolveAsynchronous data arrayBuf =
    (let arrayItems = ArrayEach env data path in
     if length arrayItems = 0 then
       (if \<not> nullable then (Some errNonNullableFieldValueIsNull, arrayBuf)
        else resolveNull arrayBuf)
     else if resolveAsynchronous then
       resolveArrayAsynchronous env resolveItem nullable arrayItems arrayBuf
     else resolveArraySynchronous resolveItem nullable arrayItems arrayBuf)"

section \<open>Objects and the dispatch on the node kind\<close>

text \<open>
  The first part of \<^verbatim>\<open>resolveObject\<close>: run the fetch, if there is one, into a result
  set from the pool (which is empty) and merge the errors of its buffers into the object's
  buffer. \<open>Inl\<close> is the early return with the error of the fetch; the result set is
  \<open>None\<close> when the object has no fetch (\<^verbatim>\<open>set == nil\<close>).
\<close>

definition objectFetch ::
  "Env \<Rightarrow> Fetch option \<Rightarrow> slice \<Rightarrow> BufPair \<Rightarrow> error + (resultSet option \<times> BufPair)" where
  "objectFetch env fetch data objectBuf =
    (case fetch of
       None \<Rightarrow> Inr (None, objectBuf)
     | Some f \<Rightarrow>
         (case resolveFetch env f data [] of
            (Some err, resSet) \<Rightarrow> Inl err
          | (None, resSet) \<Rightarrow>
              (case mergeSetErrors (RangeOrder env (map fst resSet)) resSet objectBuf of
                 (resSet, objectBuf) \<Rightarrow> Inr (Some resSet, objectBuf))))"

definition fieldSetSource :: "resultSet option \<Rightarrow> bool \<Rightarrow> int \<Rightarrow> slice \<Rightarrow> slice" where
  "fieldSetSource resSet hasBuffer bufferID data =
    (if resSet \<noteq> None \<and> hasBuffer then
       (case map_of (the resSet) bufferID of
          Some buffer \<Rightarrow> Some (Data buffer)
        | None \<Rightarrow> None)
     else data)"

definition typeNameMismatch :: "Env \<Rightarrow> slice \<Rightarrow> slice \<Rightarrow> bool" where
  "typeNameMismatch env onTypeName fieldSetData =
    (onTypeName \<noteq> None
     \<and> bytesOf (fst (Get env fieldSetData [''__typename''])) \<noteq> bytesOf onTypeName)"

text \<open>
  The last part of \<^verbatim>\<open>resolveObject\<close>, after the loops, from \<^verbatim>\<open>typeNameSkip\<close>,
  \<^verbatim>\<open>first\<close> and the object's buffer.
\<close>

definition objectClose :: "bool \<Rightarrow> bool \<Rightarrow> bool \<Rightarrow> BufPair \<Rightarrow> error option \<times> BufPair" where
  "objectClose nullable typeNameSkip first objectBuf =
    (if first then
       (if \<not> nullable then
          (if typeNameSkip then (Some errTypeNameSkipped, objectBuf)
           else (Some errNonNullableFieldValueIsNull, objectBuf))
        else resolveNull objectBuf)
     else (None, writeData objectBuf rBrace))"

text \<open>
  The loops over the field sets and over the fields of a field set return \<open>Inl\<close> when
  \<^verbatim>\<open>resolveObject\<close> returns from inside the loop, with what it returns, and \<open>Inr\<close> with
  the loop variables otherwise: \<^verbatim>\<open>typeNameSkip\<close>, \<^verbatim>\<open>first\<close>, the object's buffer
  and the field buffer.
\<close>

fun resolveNode :: "Env \<Rightarrow> Node \<Rightarrow> slice \<Rightarrow> BufPair \<Rightarrow> error option \<times> BufPair"
  and resolveFieldSets ::
    "Env \<Rightarrow> bool \<Rightarrow> FieldSet list \<Rightarrow> resultSet option \<Rightarrow> slice
       \<Rightarrow> bool \<times> bool \<times> BufPair \<times> BufPair
       \<Rightarrow> (error option \<times> BufPair) + (bool \<times> bool \<times> BufPair \<times> BufPair)"
  and resolveFields ::
    "Env \<Rightarrow> bool \<Rightarrow> Field list \<Rightarrow> slice \<Rightarrow> bool \<times> BufPair \<times> BufPair
       \<Rightarrow> (error option \<times> BufPair) + (bool \<times> BufPair \<times> BufPair)"
where
  "resolveNode env (Object nullable path fieldSets fetch) data objectBuf =
    (let data = (if length path \<noteq> 0 then fst (Get env data path) else data) in
     case objectFetch env fetch data objectBuf of
       Inl err \<Rightarrow> (Some err, objectBuf)
     | Inr (resSet, objectBuf) \<Rightarrow>
         (case resolveFieldSets env nullable fieldSets resSet data
                 (False, True, objectBuf, NewBufPair) of
            Inl result \<Rightarrow> result
          | Inr (typeNameSkip, first, objectBuf, fieldBuf) \<Rightarrow>
              objectClose nullable typeNameSkip first objectBuf))"
| "resolveNode env (Array path nullable resolveAsynchronous item) data bufPair =
     resolveArray env (\<lambda>itemData itemBuf. resolveNode env item itemData itemBuf)
       path nullable resolveAsynchronous data bufPair"
| "resolveNode env Null data bufPair = resolveNull bufPair"
| "resolveNode env (String path nullable) data bufPair =
     resolveString env path nullable data bufPair"
| "resolveNode env (Boolean path nullable) data bufPair =
     resolveBoolean env path nullable data bufPair"
| "resolveNode env (Integer path nullable) data bufPair =
     resolveInteger env path nullable data bufPair"
| "resolveNode env (Float path nullable) data bufPair =
     resolveFloat env path nullable data bufPair"
| "resolveNode env EmptyObject data bufPair = resolveEmptyObject bufPair"
| "resolveNode env EmptyArray data bufPair = resolveEmptyArray bufPair"
| "resolveFieldSets env nullable [] resSet data state = Inr state"
| "resolveFieldSets env nullable (FieldSet onTypeName bufferID hasBuffer fieldList # fieldSets)
       resSet data (typeNameSkip, first, objectBuf, fieldBuf) =
    (let fieldSetData = fieldSetSource resSet hasBuffer bufferID data in
     if typeNameMismatch env onTypeName fieldSetData then
       resolveFieldSets env nullable fieldSets resSet data (True, first, objectBuf, fieldBuf)
     else
       (case resolveFields env nullable fieldList fieldSetData (first, objectBuf, fieldBuf) of
          Inl result \<Rightarrow> Inl result
        | Inr (first, objectBuf, fieldBuf) \<Rightarrow>
            resolveFieldSets env nullable fieldSets resSet data
              (typeNameSkip, first, objectBuf, fieldBuf)))"
| "resolveFields env nullable [] fieldSetData state = Inr state"
| "resolveFields env nullable (Field name fieldValue # fieldList) fieldSetData
       (first, objectBuf, fieldBuf) =
    (let objectBuf = (if first then writeData objectBuf lBrace else writeData objectBuf comma);
         objectBuf = writeData objectBuf quote;
         objectBuf = writeData objectBuf name;
         objectBuf = writeData objectBuf quote;
         objectBuf = writeData objectBuf colon
     in case resolveNode env fieldValue fieldSetData fieldBuf of
          (Some err, fieldBuf) \<Rightarrow>
            if err = errNonNullableFieldValueIsNull \<and> nullable then
              Inl (None, writeData (objectBuf\<lparr>Data := []\<rparr>) null)
            else Inl (Some err, objectBuf)
        | (None, fieldBuf) \<Rightarrow>
            (case MergeBufPairs fieldBuf objectBuf False of
               (dataWritten, errorsWritten, fieldBuf, objectBuf) \<Rightarrow>
                 resolveFields env nullable fieldList fieldSetData (False, objectBuf, fieldBuf)))"

section \<open>The response assembler\<close>

text \<open>
  The caller's writer is any \<^verbatim>\<open>io.Writer\<close>: a state \<open>'w\<close> with a function \<open>wr\<close> that
  writes a byte slice and returns the new state and the error of the write, if any.
  \<^verbatim>\<open>writeSafe\<close> skips the write when an earlier error is pending;
  \<^verbatim>\<open>bytes.Buffer.WriteTo\<close> writes a non-empty buffer with one call of \<^verbatim>\<open>Write\<close>.
\<close>

definition writeSafe ::
  "('w \<Rightarrow> string \<Rightarrow> 'w \<times> string option) \<Rightarrow> error option \<Rightarrow> 'w \<Rightarrow> string \<Rightarrow> error option \<times> 'w" where
  "writeSafe wr err writer bs =
    (case err of
       Some e \<Rightarrow> (Some e, writer)
     | None \<Rightarrow> (case wr writer bs of (writer, e) \<Rightarrow> (map_option OtherError e, writer)))"

definition WriteTo ::
  "('w \<Rightarrow> string \<Rightarrow> 'w \<times> string option) \<Rightarrow> string \<Rightarrow> 'w \<Rightarrow> error option \<times> 'w" where
  "WriteTo wr buf writer =
    (if length buf > 0 then
       (case wr writer buf of (writer, e) \<Rightarrow> (map_option OtherError e, writer))
     else (None, writer))"

text \<open>
  \<open>responseData\<close> is \<^verbatim>\<open>response.Data\<close>, the one field of \<^verbatim>\<open>GraphQLResponse\<close>.
\<close>

definition ResolveGraphQLResponse ::
  "Env \<Rightarrow> ('w \<Rightarrow> string \<Rightarrow> 'w \<times> string option) \<Rightarrow> Node \<Rightarrow> slice \<Rightarrow> 'w \<Rightarrow> error option \<times> 'w" where
  "ResolveGraphQLResponse env wr responseData data writer =
    (case resolveNode env responseData data NewBufPair of
       (Some err, buf) \<Rightarrow> (Some err, writer)
     | (None, buf) \<Rightarrow>
         (let hasErrors = (length (Errors buf) \<noteq> 0);
              hasData = (length (Data buf) \<noteq> 0);
              (err, writer) = writeSafe wr None writer lBrace;
              (err, writer) =
                (if hasErrors then
                   (let (err, writer) = writeSafe wr err writer quote;
                        (err, writer) = writeSafe wr err writer literalErrors;
                        (err, writer) = writeSafe wr err writer quote;
                        (err, writer) = writeSafe wr err writer colon;
                        (err, writer) = writeSafe wr err writer lBrack;
                        (err, writer) = WriteTo wr (Errors buf) writer
                    in writeSafe wr err writer rBrack)
                 else (err, writer));
              (err, writer) =
                (if hasData then
                   (let (err, writer) =
                          (if hasErrors then writeSafe wr err writer comma else (err, writer));
                        (err, writer) = writeSafe wr err writer quote;
                        (err, writer) = writeSafe wr err writer literalData;
                        (err, writer) = writeSafe wr err writer quote;
                        (err, writer) = writeSafe wr err writer colon
                    in WriteTo wr (Data buf) writer)
                 else (err, writer))
          in writeSafe wr err writer rBrace))"

text \<open>
  \<^verbatim>\<open>EngineResultWriter.Write\<close> appends to the writer's buffer and returns no error.
\<close>

definition EngineResultWriter_Write :: "string \<Rightarrow> string \<Rightarrow> string \<times> string option" where
  "EngineResultWriter_Write buf p = (buf @ p, None)"

section \<open>Concrete collaborators for the examples\<close>

text \<open>
  In the examples \<^verbatim>\<open>jsonparser\<close> is given by tables that list, for the data and the
  paths that occur, what \<^verbatim>\<open>Get\<close> returns (value and type) and which values
  \<^verbatim>\<open>ArrayEach\<close> visits; \<^verbatim>\<open>Get\<close> fails on every other input and
  \<^verbatim>\<open>ArrayEach\<close> visits nothing there.
\<close>

definition tableGet ::
  "((string \<times> string list) \<times> string \<times> ValueType) list
     \<Rightarrow> slice \<Rightarrow> string list \<Rightarrow> slice \<times> ValueType \<times> string option" where
  "tableGet tab data path =
    (case map_of tab (bytesOf data, path) of
       Some (v, t) \<Rightarrow> (Some v, t, None)
     | None \<Rightarrow> (None, jsonparser_NotExist, Some ''Key path not found''))"

definition tableArrayEach ::
  "((string \<times> string list) \<times> string list) list \<Rightarrow> slice \<Rightarrow> string list \<Rightarrow> slice list" where
  "tableArrayEach tab data path =
    (case map_of tab (bytesOf data, path) of
       Some vs \<Rightarrow> map Some vs
     | None \<Rightarrow> [])"

definition tableEnv ::
  "((string \<times> string list) \<times> string \<times> ValueType) list
     \<Rightarrow> ((string \<times> string list) \<times> string list) list \<Rightarrow> Env" where
  "tableEnv gets arrays =
    \<lparr>Get = tableGet gets, ArrayEach = tableArrayEach arrays, Variables = None,
     EnableSingleFlightLoader = False, RangeOrder = (\<lambda>ks. ks), Sched = (\<lambda>errs. 0)\<rparr>"

section \<open>Example inputs\<close>


definition typeNameEnv :: Env where
  \<open>typeNameEnv = tableEnv
     [((''{"__typename":"Cat"}'', [''__typename'']), (''Cat'', jsonparser_String)),
      ((''{"__typename":"Dog","barkVolume":7}'', [''__typename'']), (''Dog'', jsonparser_String)),
      ((''{"__typename":"Dog","barkVolume":7}'', [''barkVolume'']), (''7'', jsonparser_Number))]
     [((''[{"__typename":"Cat"},{"__typename":"Dog","barkVolume":7}]'', []),
       [''{"__typename":"Cat"}'', ''{"__typename":"Dog","barkVolume":7}''])]\<close>

text \<open>
  A fetch whose data source answers with a partial response, \<^verbatim>\<open>{"a":1}\<close>, and reports
  the failure of the upstream besides.
\<close>

definition partialFetch :: SingleFetch where
  \<open>partialFetch =
     \<lparr>BufferId = 0,
      DataSource =
        \<lparr>Load = (\<lambda>input buf. (Some ''upstream failed'', buf\<lparr>Data := Data buf @ ''{"a":1}''\<rparr>)),
         UniqueIdentifier = ''ds''\<rparr>,
      DisallowSingleFlight = False, InputTemplate = []\<rparr>\<close>






section \<open>Predicates of the statements\<close>

text \<open>
  What a resolver may return from inside its loop when a child has failed: with no error
  the failure was absorbed, which only a nullable node does and which leaves exactly
  \<open>null\<close> in its data buffer; with an error the failure is passed on, which a nullable
  node never does with \<^verbatim>\<open>errNonNullableFieldValueIsNull\<close>.
\<close>

definition absorbsOrPropagates :: "bool \<Rightarrow> error option \<times> BufPair \<Rightarrow> bool" where
  "absorbsOrPropagates nullable res =
    (case res of
       (None, buf) \<Rightarrow> nullable \<and> Data buf = null
     | (Some e, buf) \<Rightarrow> \<not> (nullable \<and> e = errNonNullableFieldValueIsNull))"

text \<open>
  Every field set of the list is skipped by its \<^verbatim>\<open>__typename\<close> condition, on the data
  that \<^verbatim>\<open>resolveObject\<close> picks for it.
\<close>

definition allTypeNameSkipped :: "Env \<Rightarrow> FieldSet list \<Rightarrow> resultSet option \<Rightarrow> slice \<Rightarrow> bool" where
  "allTypeNameSkipped env fieldSets resSet data =
     list_all
       (\<lambda>fieldSet. case fieldSet of
          FieldSet onTypeName bufferID hasBuffer fieldList \<Rightarrow>
            typeNameMismatch env onTypeName (fieldSetSource resSet hasBuffer bufferID data))
       fieldSets"

text \<open>
  An item whose resolution into an empty \<open>BufPair\<close> is skipped by
  \<^verbatim>\<open>errTypeNameSkipped\<close>; an item that is resolved without error, or skipped leaving
  the \<open>BufPair\<close> empty.
\<close>

definition skippedItem :: "(slice \<Rightarrow> BufPair \<Rightarrow> error option \<times> BufPair) \<Rightarrow> slice \<Rightarrow> bool" where
  "skippedItem resolveItem itemData =
     (fst (resolveItem itemData NewBufPair) = Some errTypeNameSkipped)"













section \<open>The index-based AST of pkg/ast\<close>

text \<open>
  A document keeps its nodes in flat arrays addressed by integer references. An indexing
  or slicing that Go answers with a panic (index out of range) makes the modelled function
  return \<open>None\<close>; so does a copy that runs out of fuel (see \<open>CopySelectionSet\<close>).

  Of the document only the arrays that the functions below touch are kept. The
  declarations of \<^verbatim>\<open>Document\<close>, of fields, fragment spreads, types and directives are
  not among the sources: a field and a fragment spread are kept by their names, a type by
  its name, and the positions and directives of an inline fragment are left out.
\<close>

datatype SelectionKind =
    SelectionKindUnknown
  | SelectionKindField
  | SelectionKindFragmentSpread
  | SelectionKindInlineFragment

record Selection =
  Kind :: SelectionKind
  Ref :: int

record SelectionSet =
  SelectionRefs :: "int list"

text \<open>\<open>TypeCondition\<close> is \<^verbatim>\<open>TypeCondition.Type\<close>, the reference of the named type or -1.\<close>

record InlineFragment =
  TypeCondition :: int
  SelectionSet :: int
  HasSelections :: bool

record Document =
  SelectionSets :: "SelectionSet list"
  Selections :: "Selection list"
  InlineFragments :: "InlineFragment list"
  Fields :: "string list"
  FragmentSpreads :: "string list"
  Types :: "string list"

definition index :: "'a list \<Rightarrow> int \<Rightarrow> 'a option" where
  "index xs i = (if 0 \<le> i \<and> nat i < length xs then Some (xs ! nat i) else None)"

definition selectionRefs :: "Document \<Rightarrow> int \<Rightarrow> int list option" where
  "selectionRefs d ref = map_option SelectionRefs (index (SelectionSets d) ref)"

definition setSelectionRefs :: "Document \<Rightarrow> int \<Rightarrow> int list \<Rightarrow> Document option" where
  "setSelectionRefs d ref refs =
    (if 0 \<le> ref \<and> nat ref < length (SelectionSets d) then
       Some (d\<lparr>SelectionSets := (SelectionSets d)[nat ref := \<lparr>SelectionRefs = refs\<rparr>]\<rparr>)
     else None)"

definition AddSelectionSetToDocument :: "Document \<Rightarrow> SelectionSet \<Rightarrow> Document \<times> int" where
  "AddSelectionSetToDocument d s =
     (d\<lparr>SelectionSets := SelectionSets d @ [s]\<rparr>, int (length (SelectionSets d)))"

text \<open>
  \<^verbatim>\<open>AddSelectionSet\<close> adds an empty selection set (its storage comes from
  \<^verbatim>\<open>d.Refs\<close>, which is not among the sources) and returns the node; only the
  reference of the node is kept.
\<close>

definition AddSelectionSet :: "Document \<Rightarrow> Document \<times> int" where
  "AddSelectionSet d = AddSelectionSetToDocument d \<lparr>SelectionRefs = []\<rparr>"

definition AddSelectionToDocument :: "Document \<Rightarrow> Selection \<Rightarrow> Document \<times> int" where
  "AddSelectionToDocument d selection =
     (d\<lparr>Selections := Selections d @ [selection]\<rparr>, int (length (Selections d)))"

definition AddSelection :: "Document \<Rightarrow> int \<Rightarrow> Selection \<Rightarrow> Document option" where
  "AddSelection d s selection =
    do {
      refs \<leftarrow> selectionRefs d s;
      let (d, r) = AddSelectionToDocument d selection;
      setSelectionRefs d s (refs @ [r])
    }"

definition Document_EmptySelectionSet :: "Document \<Rightarrow> int \<Rightarrow> Document option" where
  "Document_EmptySelectionSet d ref =
    do {
      refs \<leftarrow> selectionRefs d ref;
      setSelectionRefs d ref (take 0 refs)
    }"

definition Document_AppendSelectionSet :: "Document \<Rightarrow> int \<Rightarrow> int \<Rightarrow> Document option" where
  "Document_AppendSelectionSet d ref appendRef =
    do {
      refs \<leftarrow> selectionRefs d ref;
      appendRefs \<leftarrow> selectionRefs d appendRef;
      setSelectionRefs d ref (refs @ appendRefs)
    }"

definition RemoveFromSelectionSet :: "Document \<Rightarrow> int \<Rightarrow> int \<Rightarrow> Document option" where
  "RemoveFromSelectionSet d ref i =
    do {
      refs \<leftarrow> selectionRefs d ref;
      if 0 \<le> i \<and> nat i < length refs
      then setSelectionRefs d ref (take (nat i) refs @ drop (nat i + 1) refs)
      else None
    }"

definition AddInlineFragment :: "Document \<Rightarrow> InlineFragment \<Rightarrow> Document \<times> int" where
  "AddInlineFragment d fragment =
     (d\<lparr>InlineFragments := InlineFragments d @ [fragment]\<rparr>, int (length (InlineFragments d)))"

definition InlineFragmentTypeConditionName :: "Document \<Rightarrow> int \<Rightarrow> slice option" where
  "InlineFragmentTypeConditionName d ref =
    do {
      fragment \<leftarrow> index (InlineFragments d) ref;
      if TypeCondition fragment = -1 then Some None
      else map_option Some (index (Types d) (TypeCondition fragment))
    }"

text \<open>
  Modelled from the spec: \<^verbatim>\<open>AddNamedType\<close>, \<^verbatim>\<open>FieldNameBytes\<close>, \<^verbatim>\<open>CopyField\<close> and
  \<^verbatim>\<open>CopyFragmentSpread\<close> are functions of \<^verbatim>\<open>Document\<close> that are not among the
  sources. \<^verbatim>\<open>AddNamedType\<close> appends a named type and returns its index (section 4.8);
  \<^verbatim>\<open>FieldNameBytes\<close> is the name accessor of the AST contract (section 6); the two copy
  functions clone a node and return the reference of the clone (section 4.7).
\<close>

definition AddNamedType :: "Document \<Rightarrow> string \<Rightarrow> Document \<times> int" where
  "AddNamedType d name = (d\<lparr>Types := Types d @ [name]\<rparr>, int (length (Types d)))"

definition FieldNameBytes :: "Document \<Rightarrow> int \<Rightarrow> string option" where
  "FieldNameBytes d ref = index (Fields d) ref"

definition CopyField :: "Document \<Rightarrow> int \<Rightarrow> (Document \<times> int) option" where
  "CopyField d ref =
    do {
      name \<leftarrow> index (Fields d) ref;
      Some (d\<lparr>Fields := Fields d @ [name]\<rparr>, int (length (Fields d)))
    }"

definition CopyFragmentSpread :: "Document \<Rightarrow> int \<Rightarrow> (Document \<times> int) option" where
  "CopyFragmentSpread d ref =
    do {
      name \<leftarrow> index (FragmentSpreads d) ref;
      Some (d\<lparr>FragmentSpreads := FragmentSpreads d @ [name]\<rparr>, int (length (FragmentSpreads d)))
    }"

definition TYPENAME :: string where
  "TYPENAME = ''__typename''"

text \<open>
  \<^verbatim>\<open>CopySelection\<close>, \<^verbatim>\<open>CopySelectionSet\<close> and \<^verbatim>\<open>CopyInlineFragment\<close> call each
  other along the references of the document, which may form a cycle; the first argument
  is the number of nested calls allowed. \<open>copyRefs\<close> is the loop of
  \<^verbatim>\<open>CopySelectionSet\<close> over the references of the set, with the copies made so far.
\<close>

fun CopySelection :: "nat \<Rightarrow> Document \<Rightarrow> int \<Rightarrow> (Document \<times> int) option"
  and CopySelectionSet :: "nat \<Rightarrow> Document \<Rightarrow> int \<Rightarrow> (Document \<times> int) option"
  and copyRefs :: "nat \<Rightarrow> Document \<Rightarrow> int list \<Rightarrow> int list \<Rightarrow> (Document \<times> int list) option"
  and CopyInlineFragment :: "nat \<Rightarrow> Document \<Rightarrow> int \<Rightarrow> (Document \<times> int) option"
where
  "CopySelection 0 d ref = None"
| "CopySelection (Suc fuel) d ref =
    do {
      selection \<leftarrow> index (Selections d) ref;
      (d, innerRef) \<leftarrow>
        (case Kind selection of
           SelectionKindField \<Rightarrow> CopyField d (Ref selection)
         | SelectionKindFragmentSpread \<Rightarrow> CopyFragmentSpread d (Ref selection)
         | SelectionKindInlineFragment \<Rightarrow> CopyInlineFragment fuel d (Ref selection)
         | SelectionKindUnknown \<Rightarrow> Some (d, -1));
      Some (AddSelectionToDocument d \<lparr>Kind = Kind selection, Ref = innerRef\<rparr>)
    }"
| "CopySelectionSet 0 d ref = None"
| "CopySelectionSet (Suc fuel) d ref =
    do {
      refs \<leftarrow> selectionRefs d ref;
      (d, copies) \<leftarrow> copyRefs fuel d refs [];
      Some (AddSelectionSetToDocument d \<lparr>SelectionRefs = copies\<rparr>)
    }"
| "copyRefs fuel d [] copies = Some (d, copies)"
| "copyRefs fuel d (r # refs) copies =
    do {
      (d, c) \<leftarrow> CopySelection fuel d r;
      copyRefs fuel d refs (copies @ [c])
    }"
| "CopyInlineFragment 0 d ref = None"
| "CopyInlineFragment (Suc fuel) d ref =
    do {
      fragment \<leftarrow> index (InlineFragments d) ref;
      (d, selectionSet) \<leftarrow>
        (if HasSelections fragment then CopySelectionSet fuel d (SelectionSet fragment)
         else Some (d, 0));
      Some (AddInlineFragment d
              \<lparr>TypeCondition = TypeCondition fragment, SelectionSet = selectionSet,
               HasSelections = HasSelections fragment\<rparr>)
    }"

subsection \<open>ExpandInterfaceSelectionSet\<close>

text \<open>
  The first loop of \<^verbatim>\<open>ExpandInterfaceSelectionSet\<close> runs \<open>i\<close> from the last index of the
  set down to 0; \<open>moveFields d set staging n\<close> runs the iterations for \<open>i = n - 1, ..., 0\<close>.
\<close>

fun moveFields :: "Document \<Rightarrow> int \<Rightarrow> int \<Rightarrow> nat \<Rightarrow> Document option" where
  "moveFields d s staging 0 = Some d"
| "moveFields d s staging (Suc i) =
    do {
      refs \<leftarrow> selectionRefs d s;
      selection \<leftarrow> index refs (int i);
      sel \<leftarrow> index (Selections d) selection;
      if Kind sel \<noteq> SelectionKindField then moveFields d s staging i
      else do {
        name \<leftarrow> FieldNameBytes d (Ref sel);
        if name = TYPENAME then moveFields d s staging i
        else do {
          d \<leftarrow> RemoveFromSelectionSet d s (int i);
          stagingRefs \<leftarrow> selectionRefs d staging;
          d \<leftarrow> setSelectionRefs d staging (stagingRefs @ [selection]);
          moveFields d s staging i
        }
      }
    }"

text \<open>
  The second loop, meant to reverse the staging references in place:
  \<^verbatim>\<open>for i := 0; i < len(refs)/2; i += 1 { refs[i], refs[len(refs)-1] = refs[len(refs)-1], refs[i] }\<close>.
  \<open>swapRefs refs i n\<close> runs \<open>n\<close> iterations starting at index \<open>i\<close>.
\<close>

fun swapRefs :: "int list \<Rightarrow> nat \<Rightarrow> nat \<Rightarrow> int list" where
  "swapRefs refs i 0 = refs"
| "swapRefs refs i (Suc n) =
     swapRefs (refs[i := refs ! (length refs - 1), length refs - 1 := refs ! i]) (Suc i) n"

text \<open>The third loop, over the concrete type names.\<close>

fun addTypeFragments ::
  "nat \<Rightarrow> Document \<Rightarrow> int \<Rightarrow> int \<Rightarrow> string list \<Rightarrow> Document option" where
  "addTypeFragments fuel d selectionSetToAdd staging [] = Some d"
| "addTypeFragments fuel d selectionSetToAdd staging (typeName # typeNames) =
    do {
      let (d, namedType) = AddNamedType d typeName;
      (d, copy) \<leftarrow> CopySelectionSet fuel d staging;
      let (d, newInlineFragment) =
        AddInlineFragment d \<lparr>TypeCondition = namedType, SelectionSet = copy, HasSelections = True\<rparr>;
      d \<leftarrow> AddSelection d selectionSetToAdd
             \<lparr>Kind = SelectionKindInlineFragment, Ref = newInlineFragment\<rparr>;
      addTypeFragments fuel d selectionSetToAdd staging typeNames
    }"

definition Document_ExpandInterfaceSelectionSet ::
  "nat \<Rightarrow> Document \<Rightarrow> int \<Rightarrow> string list \<Rightarrow> Document option" where
  "Document_ExpandInterfaceSelectionSet fuel d s concreteTypeNames =
    (let (d, selectionSetToAdd) = AddSelectionSet d;
         (d, inlineFragmentSelectionSet) = AddSelectionSet d
     in do {
       refs \<leftarrow> selectionRefs d s;
       d \<leftarrow> moveFields d s inlineFragmentSelectionSet (length refs);
       staged \<leftarrow> selectionRefs d inlineFragmentSelectionSet;
       if length staged = 0 then Some d
       else do {
         d \<leftarrow> setSelectionRefs d inlineFragmentSelectionSet
                (swapRefs staged 0 (length staged div 2));
         d \<leftarrow> addTypeFragments fuel d selectionSetToAdd inlineFragmentSelectionSet
                concreteTypeNames;
         Document_AppendSelectionSet d s selectionSetToAdd
       }
     })"

subsection \<open>deleteInvalidInlineFragments\<close>

text \<open>
  What the visitor takes from the walker and from the definition document, none of it
  among the sources, is a parameter: \<open>FirstNonExtensionNodeByNameBytes\<close> finds the node
  of a type name in the index of the definition, \<open>NodeFragmentIsAllowedOnNode\<close> tells
  whether a fragment on the first node is allowed on the second, and
  \<open>EnclosingTypeDefinition\<close> is the walker's enclosing type.
\<close>

record 'n DeleteVisitor =
  FirstNonExtensionNodeByNameBytes :: "slice \<Rightarrow> 'n option"
  NodeFragmentIsAllowedOnNode :: "'n \<Rightarrow> 'n \<Rightarrow> bool"
  EnclosingTypeDefinition :: 'n

text \<open>
  The loop of \<^verbatim>\<open>EnterSelectionSet\<close> reads \<^verbatim>\<open>selections\<close>, the slice taken before the
  loop. \<^verbatim>\<open>RemoveFromSelectionSet\<close> shifts the references of the set that follow the
  removed index one place down, in the array that \<^verbatim>\<open>selections\<close> shares; the places
  from the new end of the set on keep what they held. \<open>selections\<close> is updated alongside.
  \<open>deleteLoop v d ref selections n\<close> runs the iterations for \<open>index = n - 1, ..., 0\<close>.
\<close>

fun deleteLoop :: "'n DeleteVisitor \<Rightarrow> Document \<Rightarrow> int \<Rightarrow> int list \<Rightarrow> nat \<Rightarrow> Document option" where
  "deleteLoop v d ref selections 0 = Some d"
| "deleteLoop v d ref selections (Suc i) =
    do {
      selection \<leftarrow> index selections (int i);
      sel \<leftarrow> index (Selections d) selection;
      if Kind sel \<noteq> SelectionKindInlineFragment then deleteLoop v d ref selections i
      else do {
        typeName \<leftarrow> InlineFragmentTypeConditionName d (Ref sel);
        case FirstNonExtensionNodeByNameBytes v typeName of
          None \<Rightarrow> deleteLoop v d ref selections i
        | Some node \<Rightarrow>
            if \<not> NodeFragmentIsAllowedOnNode v node (EnclosingTypeDefinition v) then
              do {
                refs \<leftarrow> selectionRefs d ref;
                d \<leftarrow> RemoveFromSelectionSet d ref (int i);
                deleteLoop v d ref
                  (take i selections @ drop (i + 1) (take (length refs) selections)
                   @ drop (length refs - 1) selections) i
              }
            else deleteLoop v d ref selections i
      }
    }"

definition EnterSelectionSet :: "'n DeleteVisitor \<Rightarrow> Document \<Rightarrow> int \<Rightarrow> Document option" where
  "EnterSelectionSet v operation ref =
    do {
      selections \<leftarrow> selectionRefs operation ref;
      if length selections = 0 then Some operation
      else deleteLoop v operation ref selections (length selections)
    }"

section \<open>The transformation scheduler of pkg/asttransform\<close>


text \<open>
  The structs that implement \<^verbatim>\<open>transformation\<close>, with their fields in order, and their
  method \<^verbatim>\<open>apply\<close> (here \<open>apply_transformation\<close>).
\<close>

datatype transformation =
    deleteRootNode "int \<times> int"
  | emptySelectionSet int
  | appendSelectionSet int int
  | replaceFragmentSpread int int int
  | replaceFragmentSpreadWithInlineFragment int int int int
  | expandInterfaceInlineFragment int int "string list"
  | promoteUnionInlineFragments int int
  | expandInterfaceSelectionSet int "string list"


record Precedence =
  Depth :: int
  Order :: int

record action =
  precedence :: Precedence
  transformation :: transformation

record Transformer =
  actions :: "action list"

definition Transformer_Reset :: "Transformer \<Rightarrow> Transformer" where
  "Transformer_Reset t = t\<lparr>actions := take 0 (actions t)\<rparr>"

text \<open>
  Each registration method of the \<^verbatim>\<open>Transformer\<close> appends one action;
  \<open>register\<close> is their common body.
\<close>

definition register :: "Transformer \<Rightarrow> Precedence \<Rightarrow> transformation \<Rightarrow> Transformer" where
  "register t p tr = t\<lparr>actions := actions t @ [\<lparr>precedence = p, transformation = tr\<rparr>]\<rparr>"

definition Transformer_DeleteRootNode :: "Transformer \<Rightarrow> Precedence \<Rightarrow> int \<times> int \<Rightarrow> Transformer" where
  "Transformer_DeleteRootNode t p node = register t p (deleteRootNode node)"

definition Transformer_EmptySelectionSet :: "Transformer \<Rightarrow> Precedence \<Rightarrow> int \<Rightarrow> Transformer" where
  "Transformer_EmptySelectionSet t p ref = register t p (emptySelectionSet ref)"

definition Transformer_AppendSelectionSet ::
  "Transformer \<Rightarrow> Precedence \<Rightarrow> int \<Rightarrow> int \<Rightarrow> Transformer" where
  "Transformer_AppendSelectionSet t p ref appendRef = register t p (appendSelectionSet ref appendRef)"

definition Transformer_ReplaceFragmentSpread ::
  "Transformer \<Rightarrow> Precedence \<Rightarrow> int \<Rightarrow> int \<Rightarrow> int \<Rightarrow> Transformer" where
  "Transformer_ReplaceFragmentSpread t p selectionSet spreadRef replaceWithSelectionSet =
     register t p (replaceFragmentSpread selectionSet spreadRef replaceWithSelectionSet)"

definition Transformer_ReplaceFragmentSpreadWithInlineFragment ::
  "Transformer \<Rightarrow> Precedence \<Rightarrow> int \<Rightarrow> int \<Rightarrow> int \<Rightarrow> int \<Rightarrow> Transformer" where
  "Transformer_ReplaceFragmentSpreadWithInlineFragment t p selectionSet spreadRef
       replaceWithSelectionSet typeCondition =
     register t p (replaceFragmentSpreadWithInlineFragment selectionSet spreadRef
       replaceWithSelectionSet typeCondition)"

definition Transformer_ExpandInterfaceInlineFragment ::
  "Transformer \<Rightarrow> Precedence \<Rightarrow> int \<Rightarrow> int \<Rightarrow> string list \<Rightarrow> Transformer" where
  "Transformer_ExpandInterfaceInlineFragment t p inlineFragment parentSelectionSet
       concreteTypeNames =
     register t p (expandInterfaceInlineFragment inlineFragment parentSelectionSet
       concreteTypeNames)"

definition Transformer_PromoteUnionInlineFragments ::
  "Transformer \<Rightarrow> Precedence \<Rightarrow> int \<Rightarrow> int \<Rightarrow> Transformer" where
  "Transformer_PromoteUnionInlineFragments t p inlineFragment parentSelectionSet =
     register t p (promoteUnionInlineFragments inlineFragment parentSelectionSet)"

definition Transformer_ExpandInterfaceSelectionSet ::
  "Transformer \<Rightarrow> Precedence \<Rightarrow> int \<Rightarrow> string list \<Rightarrow> Transformer" where
  "Transformer_ExpandInterfaceSelectionSet t p selectionSet concreteTypeNames =
     register t p (expandInterfaceSelectionSet selectionSet concreteTypeNames)"









section \<open>Errors of the fetch layer and early returns of the loops\<close>

















lemma async_absorbs:
  assumes "sentErrors (map (\<lambda>itemData. resolveItem itemData NewBufPair) arrayItems) \<noteq> []"
  shows "absorbsOrPropagates nullable (resolveArrayAsynchronous env resolveItem nullable arrayItems buf)"
  using assms
  by (auto simp: resolveArrayAsynchronous_def Let_def absorbsOrPropagates_def resolveNull_def writeData_def)

text \<open>The merge functions drain the source and leave the destination's data alone.\<close>

lemma MergeBufPairErrors_Errors:
  "MergeBufPairErrors from to = (n, from', to') \<Longrightarrow>
     Errors to' = Errors to @ (if HasErrors from \<and> HasErrors to then comma else []) @ Errors from
     \<and> Errors from' = [] \<and> Data to' = Data to \<and> Data from' = Data from"
  by (auto simp: MergeBufPairErrors_def HasErrors_def Let_def split: if_splits)

lemma mergeSetErrors_Data:
  "mergeSetErrors ks rs ob = (rs', ob') \<Longrightarrow> Data ob' = Data ob"
proof (induction ks arbitrary: rs ob)
  case Nil
  then show ?case by simp
next
  case (Cons k ks)
  show ?case
  proof (cases "map_of rs k")
    case None
    then show ?thesis using Cons by simp
  next
    case (Some b)
    obtain n b' ob1 where m: "MergeBufPairErrors b ob = (n, b', ob1)"
      using prod_cases3 by blast
    have "mergeSetErrors ks (setBuffer rs k b') ob1 = (rs', ob')"
      using Cons.prems Some m by simp
    then have "Data ob' = Data ob1" by (rule Cons.IH)
    then show ?thesis using MergeBufPairErrors_Errors[OF m] by simp
  qed
qed

lemma objectFetch_Data:
  "objectFetch env fetch data ob = Inr (rs, ob') \<Longrightarrow> Data ob' = Data ob"
  by (auto simp: objectFetch_def split: option.splits prod.splits dest: mergeSetErrors_Data)

lemma MergeBufPairs_drains:
  "MergeBufPairs from to p = (dw, ew, from', to') \<Longrightarrow> from' = NewBufPair"
  by (auto simp: MergeBufPairs_def MergeBufPairData_def MergeBufPairErrors_def HasData_def
      HasErrors_def NewBufPair_def Let_def split: if_splits prod.splits)












section \<open>Null propagation\<close>




section \<open>The response envelope\<close>

lemma writeSafe_EngineResultWriter:
  "writeSafe EngineResultWriter_Write None w bs = (None, w @ bs)"
  by (simp add: writeSafe_def EngineResultWriter_Write_def)

lemma WriteTo_EngineResultWriter:
  "WriteTo EngineResultWriter_Write buf w = (None, w @ buf)"
  by (simp add: WriteTo_def EngineResultWriter_Write_def)

text \<open>
  The envelope that \<^verbatim>\<open>ResolveGraphQLResponse\<close> writes to an in-memory writer once the
  root node has resolved: the member of the error list is keyed by \<open>literalErrors\<close>, and
  it is absent when the errors buffer is empty.
\<close>

lemma ResolveGraphQLResponse_envelope:
  assumes "resolveNode env responseData data NewBufPair = (None, buf)"
  shows "ResolveGraphQLResponse env EngineResultWriter_Write responseData data w =
    (None, w @ lBrace
       @ (if Errors buf \<noteq> []
          then quote @ literalErrors @ quote @ colon @ lBrack @ Errors buf @ rBrack else [])
       @ (if Data buf \<noteq> []
          then (if Errors buf \<noteq> [] then comma else [])
               @ quote @ literalData @ quote @ colon @ Data buf
          else [])
       @ rBrace)"
  using assms
  by (simp add: ResolveGraphQLResponse_def Let_def writeSafe_EngineResultWriter
      WriteTo_EngineResultWriter)

text \<open>
  C2 fails on the code: \<open>literalErrors\<close> is \<^verbatim>\<open>Errors\<close>, with a capital E. A root object
  whose fetch loads \<^verbatim>\<open>{"a":1}\<close> together with the error \<^verbatim>\<open>{"message":"boom"}\<close>
  is answered with an envelope that starts with \<^verbatim>\<open>{"Errors":[\<close>, where the claim has
  \<^verbatim>\<open>{"errors":[\<close>.
\<close>

theorem errors_key_capitalised:
  \<open>ResolveGraphQLResponse
     (tableEnv [((''{"a":1}'', [''a'']), (''1'', jsonparser_Number))] [])
     EngineResultWriter_Write
     (Object False [] [FieldSet None 0 True [Field ''a'' (Integer [''a''] False)]]
        (Some (FetchSingle
          \<lparr>BufferId = 0,
           DataSource =
             \<lparr>Load = (\<lambda>input buf. (None, buf\<lparr>Data := Data buf @ ''{"a":1}'',
                                                Errors := Errors buf @ ''{"message":"boom"}''\<rparr>)),
              UniqueIdentifier = ''ds''\<rparr>,
           DisallowSingleFlight = False, InputTemplate = []\<rparr>)))
     None []
   = (None, ''{"Errors":[{"message":"boom"}],"data":{"a":1}}'')\<close>
  by code_simp

section \<open>Single flight\<close>

text \<open>
  The bytes agree: a follower appends to its \<open>BufPair\<close> the bytes that the leader appended
  to its own.
\<close>

lemma single_flight_same_bytes:
  "resolveSingleFetchLeader fetch preparedInput buf = (err, buf', inflight) \<Longrightarrow>
   snd (resolveSingleFetchFollower inflight buf) = buf'"
  by (auto simp: resolveSingleFetchLeader_def resolveSingleFetchFollower_def Let_def
      split: prod.splits if_splits)

text \<open>
  The error that a follower returns is the error of the load.
\<close>

lemma single_flight_follower_error:
  "resolveSingleFetchLeader fetch preparedInput buf = (err, buf', inflight) \<Longrightarrow>
   fst (resolveSingleFetchFollower inflight buf2) =
     map_option OtherError (fst (Load (DataSource fetch) preparedInput NewBufPair))"
  by (auto simp: resolveSingleFetchLeader_def resolveSingleFetchFollower_def Let_def
      split: prod.splits if_splits)

text \<open>
  With single flight enabled and allowed, what \<^verbatim>\<open>resolveSingleFetch\<close> returns to the call
  that starts the load is what the leader's path returns.
\<close>

lemma single_flight_call_is_leader:
  "EnableSingleFlightLoader env \<Longrightarrow> \<not> DisallowSingleFlight fetch \<Longrightarrow>
   resolveSingleFetch env fetch preparedInput buf =
     (fst (resolveSingleFetchLeader fetch preparedInput buf),
      fst (snd (resolveSingleFetchLeader fetch preparedInput buf)))"
  by (simp add: resolveSingleFetch_def split: prod.splits)

text \<open>
  C3 fails on the code in its part "every caller receives the same returned error", which
  needs no interleaving to state: it compares what the leader's path and a follower's path
  return for one load. When \<^verbatim>\<open>Load\<close> fails after it wrote data, the leader's error is
  overwritten by the \<^verbatim>\<open>nil\<close> of \<^verbatim>\<open>buf.Data.Write\<close>, while the follower returns the error
  kept in the record. For \<open>partialFetch\<close> and two empty \<open>BufPair\<close>s the two callers hold the
  same bytes, the leader returns no error and the follower returns the error of the load.
  (That \<^verbatim>\<open>Load\<close> runs once and that the record is not recycled early depend on the
  interleaving of the calls, which these definitions do not describe.)
\<close>

theorem single_flight_leader_drops_error:
  \<open>resolveSingleFetchLeader partialFetch ''{}'' NewBufPair =
     (None, \<lparr>Data = ''{"a":1}'', Errors = []\<rparr>,
      \<lparr>inflightErr = Some (OtherError ''upstream failed''),
       inflightBufPair = \<lparr>Data = ''{"a":1}'', Errors = []\<rparr>\<rparr>)
   \<and> resolveSingleFetchFollower
       \<lparr>inflightErr = Some (OtherError ''upstream failed''),
        inflightBufPair = \<lparr>Data = ''{"a":1}'', Errors = []\<rparr>\<rparr> NewBufPair =
     (Some (OtherError ''upstream failed''), \<lparr>Data = ''{"a":1}'', Errors = []\<rparr>)\<close>
  by code_simp

section \<open>Serial and parallel resolution of an array\<close>


































section \<open>Objects whose field sets are all skipped\<close>

lemma resolveFieldSets_allSkipped:
  "allTypeNameSkipped env fss rs data \<Longrightarrow>
     resolveFieldSets env nullable fss rs data (tns, first, ob, fb)
       = Inr (tns \<or> fss \<noteq> [], first, ob, fb)"
proof (induction fss arbitrary: tns)
  case Nil
  then show ?case by simp
next
  case (Cons fs fss)
  obtain otn bid hb fl where fs: "fs = FieldSet otn bid hb fl" by (cases fs)
  have m: "typeNameMismatch env otn (fieldSetSource rs hb bid data)"
    and rest: "allTypeNameSkipped env fss rs data"
    using Cons.prems unfolding fs by (simp_all add: allTypeNameSkipped_def)
  show ?case unfolding fs using m Cons.IH[OF rest, of True] by (simp add: Let_def)
qed

lemma object_allSkipped:
  assumes "objectFetch env fetch (if length path \<noteq> 0 then fst (Get env data path) else data) ob
            = Inr (rs, ob')"
    and "allTypeNameSkipped env fss rs (if length path \<noteq> 0 then fst (Get env data path) else data)"
    and "fss \<noteq> []"
  shows "resolveNode env (Object nullable path fss fetch) data ob =
          (if nullable then (None, writeData ob' null) else (Some errTypeNameSkipped, ob'))"
  using assms(1,3) resolveFieldSets_allSkipped[OF assms(2), of nullable False True ob' NewBufPair]
  by (simp add: Let_def objectClose_def resolveNull_def)

lemma syncLoop_drops_skipped:
  assumes "\<forall>itemData \<in> set items. skippedItem r itemData \<longrightarrow>
             r itemData NewBufPair = (Some errTypeNameSkipped, NewBufPair)"
  shows "resolveArraySynchronousLoop r nullable items (ab, NewBufPair, hp)
       = resolveArraySynchronousLoop r nullable (filter (\<lambda>itemData. \<not> skippedItem r itemData) items)
           (ab, NewBufPair, hp)"
  using assms
proof (induction items arbitrary: ab hp)
  case Nil
  then show ?case by simp
next
  case (Cons d ds)
  have rest: "\<forall>itemData \<in> set ds. skippedItem r itemData \<longrightarrow>
             r itemData NewBufPair = (Some errTypeNameSkipped, NewBufPair)"
    using Cons.prems by simp
  show ?case
  proof (cases "skippedItem r d")
    case True
    then have "r d NewBufPair = (Some errTypeNameSkipped, NewBufPair)" using Cons.prems by simp
    then show ?thesis using True Cons.IH[OF rest] by simp
  next
    case False
    obtain e ib where ri: "r d NewBufPair = (e, ib)" by (cases "r d NewBufPair")
    show ?thesis
    proof (cases e)
      case None
      obtain dw ew ib' ab' where mg: "MergeBufPairs ib ab hp = (dw, ew, ib', ab')"
        using prod_cases4 by blast
      have "ib' = NewBufPair" using MergeBufPairs_drains[OF mg] .
      then show ?thesis using False ri None mg Cons.IH[OF rest] by simp
    next
      case (Some err)
      then have "err \<noteq> errTypeNameSkipped" using False ri by (simp add: skippedItem_def)
      then show ?thesis using False ri Some by simp
    qed
  qed
qed

text \<open>
  C5, as the claim states it, fails for a nullable object: the nullability fallback comes
  first, so a nullable object whose only field set is skipped emits \<open>null\<close>, and the
  array around it gets a \<open>null\<close> entry and a separator for that item.
\<close>

theorem nullable_skipped_object_counterexample:
  \<open>resolveNode typeNameEnv
     (Object True []
        [FieldSet (Some ''Dog'') 0 False [Field ''barkVolume'' (Integer [''barkVolume''] False)]]
        None)
     (Some ''{"__typename":"Cat"}'') NewBufPair
   = (None, \<lparr>Data = ''null'', Errors = []\<rparr>)
   \<and> resolveNode typeNameEnv
     (Array [] False False
        (Object True []
           [FieldSet (Some ''Dog'') 0 False [Field ''barkVolume'' (Integer [''barkVolume''] False)]]
           None))
     (Some ''[{"__typename":"Cat"},{"__typename":"Dog","barkVolume":7}]'') NewBufPair
   = (None, \<lparr>Data = ''[null,{"barkVolume":7}]'', Errors = []\<rparr>)\<close>
  by code_simp

text \<open>
  C5, amended. An object that is not nullable, whose fetch (if any) succeeded and whose
  field sets (at least one) are all skipped by their \<^verbatim>\<open>__typename\<close> condition, returns
  \<^verbatim>\<open>errTypeNameSkipped\<close> and writes no data; a nullable one emits \<open>null\<close> instead. The
  serial array resolver drops an item that is skipped leaving its buffer empty: its output
  is the output for the source array without the skipped items, so such an item
  contributes neither bytes nor a separator.
\<close>

theorem typename_skip_drops_item:
  "(objectFetch env fetch (if length path \<noteq> 0 then fst (Get env data path) else data) objectBuf
        = Inr (resSet, objectBuf')
      \<and> allTypeNameSkipped env fieldSets resSet
          (if length path \<noteq> 0 then fst (Get env data path) else data)
      \<and> fieldSets \<noteq> []
     \<longrightarrow> resolveNode env (Object False path fieldSets fetch) data objectBuf
           = (Some errTypeNameSkipped, objectBuf')
         \<and> resolveNode env (Object True path fieldSets fetch) data objectBuf
           = (None, writeData objectBuf' null)
         \<and> Data objectBuf' = Data objectBuf
         \<and> (fetch = None \<longrightarrow> objectBuf' = objectBuf))
   \<and> ((\<forall>itemData \<in> set arrayItems. skippedItem resolveItem itemData \<longrightarrow>
           resolveItem itemData NewBufPair = (Some errTypeNameSkipped, NewBufPair))
     \<longrightarrow> resolveArraySynchronous resolveItem nullable arrayItems arrayBuf
         = resolveArraySynchronous resolveItem nullable
             (filter (\<lambda>itemData. \<not> skippedItem resolveItem itemData) arrayItems) arrayBuf)"
proof (intro conjI impI)
  assume h: "objectFetch env fetch (if length path \<noteq> 0 then fst (Get env data path) else data)
        objectBuf = Inr (resSet, objectBuf')
      \<and> allTypeNameSkipped env fieldSets resSet
          (if length path \<noteq> 0 then fst (Get env data path) else data)
      \<and> fieldSets \<noteq> []"
  note o = object_allSkipped[OF h[THEN conjunct1] h[THEN conjunct2, THEN conjunct1]
      h[THEN conjunct2, THEN conjunct2]]
  show "resolveNode env (Object False path fieldSets fetch) data objectBuf
           = (Some errTypeNameSkipped, objectBuf')"
    using o[of False] by simp
  show "resolveNode env (Object True path fieldSets fetch) data objectBuf
           = (None, writeData objectBuf' null)"
    using o[of True] by simp
  show "Data objectBuf' = Data objectBuf"
    using objectFetch_Data[OF h[THEN conjunct1]] by simp
  show "objectBuf' = objectBuf" if "fetch = None"
    using h that by (simp add: objectFetch_def)
next
  assume "\<forall>itemData \<in> set arrayItems. skippedItem resolveItem itemData \<longrightarrow>
           resolveItem itemData NewBufPair = (Some errTypeNameSkipped, NewBufPair)"
  then show "resolveArraySynchronous resolveItem nullable arrayItems arrayBuf
         = resolveArraySynchronous resolveItem nullable
             (filter (\<lambda>itemData. \<not> skippedItem resolveItem itemData) arrayItems) arrayBuf"
    unfolding resolveArraySynchronous_def by (simp only: syncLoop_drops_skipped)
qed

theorem typename_skip_drops_item_witness:
  \<open>objectFetch typeNameEnv None (Some ''{"__typename":"Cat"}'') NewBufPair = Inr (None, NewBufPair)
   \<and> allTypeNameSkipped typeNameEnv
        [FieldSet (Some ''Dog'') 0 False [Field ''barkVolume'' (Integer [''barkVolume''] False)]]
        None (Some ''{"__typename":"Cat"}'')
   \<and> resolveNode typeNameEnv
        (Object False []
           [FieldSet (Some ''Dog'') 0 False [Field ''barkVolume'' (Integer [''barkVolume''] False)]]
           None)
        (Some ''{"__typename":"Cat"}'') NewBufPair
       = (Some errTypeNameSkipped, NewBufPair)
   \<and> skippedItem
        (\<lambda>itemData itemBuf. resolveNode typeNameEnv
           (Object False []
              [FieldSet (Some ''Dog'') 0 False [Field ''barkVolume'' (Integer [''barkVolume''] False)]]
              None) itemData itemBuf)
        (Some ''{"__typename":"Cat"}'')
   \<and> \<not> skippedItem
        (\<lambda>itemData itemBuf. resolveNode typeNameEnv
           (Object False []
              [FieldSet (Some ''Dog'') 0 False [Field ''barkVolume'' (Integer [''barkVolume''] False)]]
              None) itemData itemBuf)
        (Some ''{"__typename":"Dog","barkVolume":7}'')
   \<and> resolveArraySynchronous
        (\<lambda>itemData itemBuf. resolveNode typeNameEnv
           (Object False []
              [FieldSet (Some ''Dog'') 0 False [Field ''barkVolume'' (Integer [''barkVolume''] False)]]
              None) itemData itemBuf)
        False [Some ''{"__typename":"Cat"}'', Some ''{"__typename":"Dog","barkVolume":7}'']
        NewBufPair
       = resolveArraySynchronous
        (\<lambda>itemData itemBuf. resolveNode typeNameEnv
           (Object False []
              [FieldSet (Some ''Dog'') 0 False [Field ''barkVolume'' (Integer [''barkVolume''] False)]]
              None) itemData itemBuf)
        False [Some ''{"__typename":"Dog","barkVolume":7}''] NewBufPair
   \<and> resolveArraySynchronous
        (\<lambda>itemData itemBuf. resolveNode typeNameEnv
           (Object False []
              [FieldSet (Some ''Dog'') 0 False [Field ''barkVolume'' (Integer [''barkVolume''] False)]]
              None) itemData itemBuf)
        False [Some ''{"__typename":"Dog","barkVolume":7}''] NewBufPair
       = (None, \<lparr>Data = ''[{"barkVolume":7}]'', Errors = []\<rparr>)\<close>
  (is "?h1 \<and> ?h2 \<and> ?c1 \<and> ?s1 \<and> ?s2 \<and> ?c2 \<and> ?v2")
proof -
  note resolveNode.simps [simp del]
  let ?r = "\<lambda>itemData itemBuf. resolveNode typeNameEnv
           (Object False []
              [FieldSet (Some ''Dog'') 0 False [Field ''barkVolume'' (Integer [''barkVolume''] False)]]
              None) itemData itemBuf"
  let ?items = "[Some ''{\"__typename\":\"Cat\"}'', Some ''{\"__typename\":\"Dog\",\"barkVolume\":7}'']"
  have h1: ?h1 by code_simp
  have h2: ?h2 by code_simp
  have s1: ?s1 by code_simp
  have s2: ?s2 by code_simp
  have v2: ?v2 by code_simp
  have h: "objectFetch typeNameEnv None
        (if length ([] :: string list) \<noteq> 0
         then fst (Get typeNameEnv (Some ''{\"__typename\":\"Cat\"}'') [])
         else Some ''{\"__typename\":\"Cat\"}'') NewBufPair = Inr (None, NewBufPair)
      \<and> allTypeNameSkipped typeNameEnv
        [FieldSet (Some ''Dog'') 0 False [Field ''barkVolume'' (Integer [''barkVolume''] False)]]
        None
        (if length ([] :: string list) \<noteq> 0
         then fst (Get typeNameEnv (Some ''{\"__typename\":\"Cat\"}'') [])
         else Some ''{\"__typename\":\"Cat\"}'')
      \<and> [FieldSet (Some ''Dog'') 0 False [Field ''barkVolume'' (Integer [''barkVolume''] False)]]
          \<noteq> []"
    using h1 h2 by simp
  have c1: ?c1
    using typename_skip_drops_item[THEN conjunct1, THEN mp, OF h, THEN conjunct1] .
  have b: "\<forall>itemData \<in> set ?items. skippedItem ?r itemData \<longrightarrow>
             ?r itemData NewBufPair = (Some errTypeNameSkipped, NewBufPair)"
    using c1 s2 by simp
  have c2: ?c2
    using typename_skip_drops_item[where resolveItem = ?r and arrayItems = ?items
        and nullable = False and arrayBuf = NewBufPair, THEN conjunct2, THEN mp, OF b] s1 s2
    by simp
  from h1 h2 c1 s1 s2 c2 v2 show ?thesis by blast
qed

section \<open>Where the typename sentinel is consumed\<close>













section \<open>The order in which transformations are applied\<close>













section \<open>The staging order of ExpandInterfaceSelectionSet\<close>

text \<open>
  The loop that is meant to reverse the staged references swaps index \<open>i\<close> with the last
  index in every iteration. Up to three references this is a reversal; from four on it is
  not.
\<close>

lemma staging_order_three_fields:
  "swapRefs [2, 1, 0] 0 (length [2, 1, 0 :: int] div 2) = [0, 1, 2]
   \<and> swapRefs [3, 2, 1, 0] 0 (length [3, 2, 1, 0 :: int] div 2) = [0, 3, 1, 2]"
  by code_simp

text \<open>
  C8 fails on the code for four moved fields: the selection set \<^verbatim>\<open>{a b c d}\<close> expanded
  for the concrete type \<^verbatim>\<open>Dog\<close> stages the references in the order 0, 3, 1, 2 and the
  clone inside the new inline fragment selects \<^verbatim>\<open>a d b c\<close>, where the claim has the
  declared order \<^verbatim>\<open>a b c d\<close>.
\<close>

theorem staging_order_four_fields:
  "Document_ExpandInterfaceSelectionSet 3
     \<lparr>SelectionSets = [\<lparr>SelectionRefs = [0, 1, 2, 3]\<rparr>],
      Selections = [\<lparr>Kind = SelectionKindField, Ref = 0\<rparr>, \<lparr>Kind = SelectionKindField, Ref = 1\<rparr>,
                    \<lparr>Kind = SelectionKindField, Ref = 2\<rparr>, \<lparr>Kind = SelectionKindField, Ref = 3\<rparr>],
      InlineFragments = [],
      Fields = [''a'', ''b'', ''c'', ''d''],
      FragmentSpreads = [], Types = []\<rparr>
     0 [''Dog'']
   = Some
     \<lparr>SelectionSets = [\<lparr>SelectionRefs = [8]\<rparr>, \<lparr>SelectionRefs = [8]\<rparr>,
                       \<lparr>SelectionRefs = [0, 3, 1, 2]\<rparr>, \<lparr>SelectionRefs = [4, 5, 6, 7]\<rparr>],
      Selections = [\<lparr>Kind = SelectionKindField, Ref = 0\<rparr>, \<lparr>Kind = SelectionKindField, Ref = 1\<rparr>,
                    \<lparr>Kind = SelectionKindField, Ref = 2\<rparr>, \<lparr>Kind = SelectionKindField, Ref = 3\<rparr>,
                    \<lparr>Kind = SelectionKindField, Ref = 4\<rparr>, \<lparr>Kind = SelectionKindField, Ref = 5\<rparr>,
                    \<lparr>Kind = SelectionKindField, Ref = 6\<rparr>, \<lparr>Kind = SelectionKindField, Ref = 7\<rparr>,
                    \<lparr>Kind = SelectionKindInlineFragment, Ref = 0\<rparr>],
      InlineFragments = [\<lparr>TypeCondition = 0, SelectionSet = 3, HasSelections = True\<rparr>],
      Fields = [''a'', ''b'', ''c'', ''d'', ''a'', ''d'', ''b'', ''c''],
      FragmentSpreads = [], Types = [''Dog'']\<rparr>"
  by code_simp

section \<open>The errors buffer of a BufPair\<close>






lemma WriteErr_Data: "Data (WriteErr b m l p) = Data b"
  by (simp add: WriteErr_def writeErrors_def Let_def)



section \<open>Deleting invalid inline fragments\<close>

text \<open>
  The first case of the test: \<^verbatim>\<open>... on Cat\<close> inside the enclosing type \<^verbatim>\<open>Dog\<close> is
  removed and the fragment before it stays.
\<close>

lemma incompatible_inline_fragment_removed:
  "map_option (\<lambda>d. map SelectionRefs (SelectionSets d))
     (EnterSelectionSet
        \<lparr>FirstNonExtensionNodeByNameBytes =
           (\<lambda>name. if name = Some ''Dog'' \<or> name = Some ''Cat'' then Some (bytesOf name) else None),
         NodeFragmentIsAllowedOnNode = (\<lambda>fragmentNode onNode. fragmentNode = onNode),
         EnclosingTypeDefinition = ''Dog''\<rparr>
        \<lparr>SelectionSets = [\<lparr>SelectionRefs = [0, 1]\<rparr>, \<lparr>SelectionRefs = [2]\<rparr>, \<lparr>SelectionRefs = [3]\<rparr>],
         Selections = [\<lparr>Kind = SelectionKindInlineFragment, Ref = 0\<rparr>,
                       \<lparr>Kind = SelectionKindInlineFragment, Ref = 1\<rparr>,
                       \<lparr>Kind = SelectionKindField, Ref = 0\<rparr>,
                       \<lparr>Kind = SelectionKindField, Ref = 1\<rparr>],
         InlineFragments = [\<lparr>TypeCondition = 0, SelectionSet = 1, HasSelections = True\<rparr>,
                            \<lparr>TypeCondition = 1, SelectionSet = 2, HasSelections = True\<rparr>],
         Fields = [''barkVolume'', ''meowVolume''], FragmentSpreads = [],
         Types = [''Dog'', ''Cat'']\<rparr>
        0)
   = Some [[0], [2], [3]]"
  by code_simp

text \<open>
  C10 fails on the code for an empty inline fragment: in the selection set
  \<^verbatim>\<open>{ ... on Dog { barkVolume } ... on Dog {} }\<close> inside the enclosing type \<^verbatim>\<open>Dog\<close>
  both fragments are allowed on \<^verbatim>\<open>Dog\<close>, and \<^verbatim>\<open>EnterSelectionSet\<close> returns the
  document as it was, with the empty fragment still in the set. The visitor has no test
  for an empty selection set.
\<close>

theorem empty_inline_fragment_kept:
  "EnterSelectionSet
     \<lparr>FirstNonExtensionNodeByNameBytes =
        (\<lambda>name. if name = Some ''Dog'' \<or> name = Some ''Cat'' then Some (bytesOf name) else None),
      NodeFragmentIsAllowedOnNode = (\<lambda>fragmentNode onNode. fragmentNode = onNode),
      EnclosingTypeDefinition = ''Dog''\<rparr>
     \<lparr>SelectionSets = [\<lparr>SelectionRefs = [0, 1]\<rparr>, \<lparr>SelectionRefs = [2]\<rparr>, \<lparr>SelectionRefs = []\<rparr>],
      Selections = [\<lparr>Kind = SelectionKindInlineFragment, Ref = 0\<rparr>,
                    \<lparr>Kind = SelectionKindInlineFragment, Ref = 1\<rparr>,
                    \<lparr>Kind = SelectionKindField, Ref = 0\<rparr>],
      InlineFragments = [\<lparr>TypeCondition = 0, SelectionSet = 1, HasSelections = True\<rparr>,
                         \<lparr>TypeCondition = 1, SelectionSet = 2, HasSelections = True\<rparr>],
      Fields = [''barkVolume''], FragmentSpreads = [], Types = [''Dog'', ''Dog'']\<rparr>
     0
   = Some
     \<lparr>SelectionSets = [\<lparr>SelectionRefs = [0, 1]\<rparr>, \<lparr>SelectionRefs = [2]\<rparr>, \<lparr>SelectionRefs = []\<rparr>],
      Selections = [\<lparr>Kind = SelectionKindInlineFragment, Ref = 0\<rparr>,
                    \<lparr>Kind = SelectionKindInlineFragment, Ref = 1\<rparr>,
                    \<lparr>Kind = SelectionKindField, Ref = 0\<rparr>],
      InlineFragments = [\<lparr>TypeCondition = 0, SelectionSet = 1, HasSelections = True\<rparr>,
                         \<lparr>TypeCondition = 1, SelectionSet = 2, HasSelections = True\<rparr>],
      Fields = [''barkVolume''], FragmentSpreads = [], Types = [''Dog'', ''Dog'']\<rparr>"
  by code_simp

end
